theory Spec2Isabelle
  imports Complex_Main "HOL-Library.Word" "HOL-Library.AList" "HOL-Library.AList"
begin

section \<open>Strings\<close>

text \<open>
  A JavaScript string is a sequence of UTF-16 code units. The page's texts are Devanagari,
  so a string is a list of 16-bit words; \<open>js\<close> writes an ASCII literal as code units.
\<close>

type_synonym code_unit = "16 word"
type_synonym jsstring = "code_unit list"

definition js :: "string \<Rightarrow> jsstring" where
  "js s = map (\<lambda>c. of_nat (of_char c)) s"

text \<open>
  \<open>String.prototype.trim\<close> strips the code points WhiteSpace and LineTerminator of
  ECMAScript from both ends: TAB, LF, VT, FF, CR, SP, NBSP, U+1680, U+2000 to U+200A,
  U+2028, U+2029, U+202F, U+205F, U+3000 and U+FEFF. All of them are single code units.
\<close>

definition isWhiteSpace :: "code_unit \<Rightarrow> bool" where
  "isWhiteSpace c \<longleftrightarrow>
     c \<in> set [0x9, 0xA, 0xB, 0xC, 0xD, 0x20, 0xA0, 0x1680, 0x2028, 0x2029, 0x202F, 0x205F,
              0x3000, 0xFEFF]
     \<or> (0x2000 \<le> c \<and> c \<le> 0x200A)"

definition trim :: "jsstring \<Rightarrow> jsstring" where
  "trim s = rev (dropWhile isWhiteSpace (rev (dropWhile isWhiteSpace s)))"

text \<open>\<open>x || null\<close> on a string: the empty string is falsy, every other string is kept.\<close>

definition orNull :: "jsstring \<Rightarrow> jsstring option" where
  "orNull x = (if x = [] then None else Some x)"

section \<open>The document and the two forms\<close>

text \<open>
  The objects the component builds. An id is the value of \<open>Date.now()\<close>, an integral
  number of milliseconds; \<open>photo\<close> and \<open>image\<close> are a string or \<open>null\<close>; \<open>status\<close> is a
  string, as in the source.
\<close>

record member =
  m_id :: int
  m_name :: jsstring
  m_position :: jsstring
  m_work :: jsstring
  m_photo :: "jsstring option"

record idea =
  i_id :: int
  i_title :: jsstring
  i_description :: jsstring
  i_image :: "jsstring option"
  i_status :: jsstring
  i_submittedAt :: jsstring

record document =
  sanghName :: jsstring
  description :: jsstring
  members :: "member list"
  ideas :: "idea list"

record member_form =
  mf_name :: jsstring
  mf_position :: jsstring
  mf_work :: jsstring
  mf_photoDataUrl :: jsstring

record idea_form =
  if_title :: jsstring
  if_description :: jsstring
  if_imageDataUrl :: jsstring



text \<open>The three pieces of state of \<open>App\<close>: \<open>data\<close>, \<open>memberForm\<close> and \<open>ideaForm\<close>.\<close>

record app =
  data :: document
  memberForm :: member_form
  ideaForm :: idea_form

text \<open>The initial value handed to \<open>useLocalStorageState\<close> (lines 49 to 54).\<close>

definition seedName :: jsstring where
  "seedName = [0x939, 0x93F, 0x902, 0x926, 0x940, 0x20, 0x90F, 0x915, 0x924, 0x93E, 0x20,
               0x936, 0x93E, 0x902, 0x917]"

definition seedDescription :: jsstring where
  "seedDescription =
     [0x939, 0x92E, 0x93E, 0x930, 0x940, 0x20, 0x936, 0x93E, 0x902, 0x917, 0x20, 0x915,
      0x93E, 0x20, 0x909, 0x926, 0x94D, 0x926, 0x947, 0x936, 0x94D, 0x92F, 0x20, 0x938,
      0x94D, 0x925, 0x93E, 0x928, 0x940, 0x92F, 0x20, 0x938, 0x941, 0x930, 0x915, 0x94D,
      0x937, 0x93E, 0x20, 0x914, 0x930, 0x20, 0x938, 0x93E, 0x92E, 0x941, 0x926, 0x93E,
      0x92F, 0x93F, 0x915, 0x20, 0x938, 0x939, 0x92F, 0x94B, 0x917, 0x20, 0x92C, 0x922,
      0x93C, 0x93E, 0x928, 0x93E, 0x20, 0x939, 0x948, 0x964]"

definition seedDocument :: document where
  "seedDocument =
     \<lparr>sanghName = seedName, description = seedDescription, members = [], ideas = []\<rparr>"

definition emptyMemberForm :: member_form where
  "emptyMemberForm = \<lparr>mf_name = [], mf_position = [], mf_work = [], mf_photoDataUrl = []\<rparr>"

definition emptyIdeaForm :: idea_form where
  "emptyIdeaForm = \<lparr>if_title = [], if_description = [], if_imageDataUrl = []\<rparr>"

definition initialApp :: app where
  "initialApp = \<lparr>data = seedDocument, memberForm = emptyMemberForm, ideaForm = emptyIdeaForm\<rparr>"

section \<open>The handlers\<close>

text \<open>
  A handler maps the state of the component to its next state. What it reads from the
  environment is an argument: the value of \<open>Date.now()\<close>, the string of
  \<open>new Date().toISOString()\<close>, the answer to \<open>confirm\<close>. \<open>addMember\<close> and \<open>submitIdea\<close>
  also return the message of the \<open>alert\<close> they raise, if any.
\<close>

definition alertName :: jsstring where
  "alertName = [0x915, 0x943, 0x92A, 0x92F, 0x93E, 0x20, 0x928, 0x93E, 0x92E, 0x20, 0x921,
                0x93E, 0x932, 0x947, 0x902]"

definition alertTitle :: jsstring where
  "alertTitle = [0x915, 0x943, 0x92A, 0x92F, 0x93E, 0x20, 0x935, 0x93F, 0x91A, 0x93E, 0x930,
                 0x20, 0x915, 0x93E, 0x20, 0x936, 0x940, 0x930, 0x94D, 0x937, 0x915, 0x20,
                 0x921, 0x93E, 0x932, 0x947, 0x902]"

definition addMember :: "int \<Rightarrow> app \<Rightarrow> jsstring option \<times> app" where
  "addMember now s =
     (if trim (mf_name (memberForm s)) = [] then (Some alertName, s)
      else
        let newMember =
              \<lparr>m_id = now,
               m_name = mf_name (memberForm s),
               m_position = mf_position (memberForm s),
               m_work = mf_work (memberForm s),
               m_photo = orNull (mf_photoDataUrl (memberForm s))\<rparr>
        in (None,
            s\<lparr>data := (data s)\<lparr>members := members (data s) @ [newMember]\<rparr>,
              memberForm := emptyMemberForm\<rparr>))"

definition submitIdea :: "int \<Rightarrow> jsstring \<Rightarrow> app \<Rightarrow> jsstring option \<times> app" where
  "submitIdea now stamp s =
     (if trim (if_title (ideaForm s)) = [] then (Some alertTitle, s)
      else
        let newIdea =
              \<lparr>i_id = now,
               i_title = if_title (ideaForm s),
               i_description = if_description (ideaForm s),
               i_image = orNull (if_imageDataUrl (ideaForm s)),
               i_status = js ''Open'',
               i_submittedAt = stamp\<rparr>
        in (None,
            s\<lparr>data := (data s)\<lparr>ideas := newIdea # ideas (data s)\<rparr>,
              ideaForm := emptyIdeaForm\<rparr>))"

definition takeActionOnIdea :: "int \<Rightarrow> app \<Rightarrow> app" where
  "takeActionOnIdea x s =
     s\<lparr>data := (data s)\<lparr>ideas :=
         map (\<lambda>i. if i_id i = x then i\<lparr>i_status := js ''Action Taken''\<rparr> else i)
             (ideas (data s))\<rparr>\<rparr>"

definition removeMember :: "bool \<Rightarrow> int \<Rightarrow> app \<Rightarrow> app" where
  "removeMember confirmed x s =
     (if \<not> confirmed then s
      else s\<lparr>data := (data s)\<lparr>members := filter (\<lambda>m. m_id m \<noteq> x) (members (data s))\<rparr>\<rparr>)"

text \<open>
  The remaining state updates of the component: the two inputs of the header (lines 132
  and 138), the fields of the two forms (lines 159 to 171 and 243 to 249), the file
  readers that store a data URL (lines 71 and 191) and the two cancel buttons (lines 206
  and 261). The first file input of the member form (line 180) hands \<open>handlePhotoUpload\<close>
  a setter that writes \<open>photoDataUrl\<close> back onto itself.
\<close>

datatype event =
    SanghNameChanged jsstring
  | DescriptionChanged jsstring
  | MemberNameChanged jsstring
  | MemberPositionChanged jsstring
  | MemberWorkChanged jsstring
  | MemberPhotoRead jsstring
  | FirstPhotoInputRead jsstring
  | MemberFormCancelled
  | IdeaTitleChanged jsstring
  | IdeaDescriptionChanged jsstring
  | IdeaImageRead jsstring
  | IdeaFormCancelled
  | AddMember int
  | SubmitIdea int jsstring
  | TakeActionOnIdea int
  | RemoveMember bool int

fun step :: "event \<Rightarrow> app \<Rightarrow> app" where
  "step (SanghNameChanged v) s = s\<lparr>data := (data s)\<lparr>sanghName := v\<rparr>\<rparr>"
| "step (DescriptionChanged v) s = s\<lparr>data := (data s)\<lparr>description := v\<rparr>\<rparr>"
| "step (MemberNameChanged v) s = s\<lparr>memberForm := (memberForm s)\<lparr>mf_name := v\<rparr>\<rparr>"
| "step (MemberPositionChanged v) s = s\<lparr>memberForm := (memberForm s)\<lparr>mf_position := v\<rparr>\<rparr>"
| "step (MemberWorkChanged v) s = s\<lparr>memberForm := (memberForm s)\<lparr>mf_work := v\<rparr>\<rparr>"
| "step (MemberPhotoRead v) s = s\<lparr>memberForm := (memberForm s)\<lparr>mf_photoDataUrl := v\<rparr>\<rparr>"
| "step (FirstPhotoInputRead v) s =
     s\<lparr>memberForm := (memberForm s)\<lparr>mf_photoDataUrl := mf_photoDataUrl (memberForm s)\<rparr>\<rparr>"
| "step MemberFormCancelled s = s\<lparr>memberForm := emptyMemberForm\<rparr>"
| "step (IdeaTitleChanged v) s = s\<lparr>ideaForm := (ideaForm s)\<lparr>if_title := v\<rparr>\<rparr>"
| "step (IdeaDescriptionChanged v) s = s\<lparr>ideaForm := (ideaForm s)\<lparr>if_description := v\<rparr>\<rparr>"
| "step (IdeaImageRead v) s = s\<lparr>ideaForm := (ideaForm s)\<lparr>if_imageDataUrl := v\<rparr>\<rparr>"
| "step IdeaFormCancelled s = s\<lparr>ideaForm := emptyIdeaForm\<rparr>"
| "step (AddMember now) s = snd (addMember now s)"
| "step (SubmitIdea now stamp) s = snd (submitIdea now stamp s)"
| "step (TakeActionOnIdea x) s = takeActionOnIdea x s"
| "step (RemoveMember confirmed x) s = removeMember confirmed x s"

fun run :: "event list \<Rightarrow> app \<Rightarrow> app" where
  "run [] s = s"
| "run (e # es) s = run es (step e s)"

text \<open>The values of \<open>Date.now()\<close> handed to the calls of \<open>addMember\<close>, and of \<open>submitIdea\<close>.\<close>

fun memberClock :: "event list \<Rightarrow> int list" where
  "memberClock [] = []"
| "memberClock (AddMember now # es) = now # memberClock es"
| "memberClock (e # es) = memberClock es"

fun ideaClock :: "event list \<Rightarrow> int list" where
  "ideaClock [] = []"
| "ideaClock (SubmitIdea now stamp # es) = now # ideaClock es"
| "ideaClock (e # es) = ideaClock es"

section \<open>JSON\<close>

text \<open>
  What \<open>JSON.parse\<close> returns: \<open>null\<close>, a boolean, a number, a string, an array or an
  object. An object lists its properties in creation order (an engine lists array-index
  keys first; the objects of a document have none). A number is kept as the exact value of
  its literal, where an engine rounds it to a double: the two agree on the integers up to
  \<open>2\<^sup>5\<^sup>3\<close> in magnitude, and so on every time value.
\<close>

datatype json =
    JNull
  | JBool bool
  | JNum rat
  | JString jsstring
  | JArray "json list"
  | JObject "(jsstring \<times> json) list"

subsection \<open>The objects of the document as values\<close>

definition member_js :: "member \<Rightarrow> json" where
  "member_js m =
     JObject [(js ''id'', JNum (of_int (m_id m))),
              (js ''name'', JString (m_name m)),
              (js ''position'', JString (m_position m)),
              (js ''work'', JString (m_work m)),
              (js ''photo'', (case m_photo m of None \<Rightarrow> JNull | Some p \<Rightarrow> JString p))]"

definition idea_js :: "idea \<Rightarrow> json" where
  "idea_js i =
     JObject [(js ''id'', JNum (of_int (i_id i))),
              (js ''title'', JString (i_title i)),
              (js ''description'', JString (i_description i)),
              (js ''image'', (case i_image i of None \<Rightarrow> JNull | Some p \<Rightarrow> JString p)),
              (js ''status'', JString (i_status i)),
              (js ''submittedAt'', JString (i_submittedAt i))]"

definition document_js :: "document \<Rightarrow> json" where
  "document_js d =
     JObject [(js ''sanghName'', JString (sanghName d)),
              (js ''description'', JString (description d)),
              (js ''members'', JArray (map member_js (members d))),
              (js ''ideas'', JArray (map idea_js (ideas d)))]"

subsection \<open>\<open>JSON.stringify\<close> on a document\<close>

text \<open>
  QuoteJSONString: the two-character escapes, \<open>\uXXXX\<close> in lower-case hexadecimal for the
  other control characters and for a surrogate that is not half of a pair, and every other
  code unit as it is.
\<close>

definition hexDigit :: "nat \<Rightarrow> code_unit" where
  "hexDigit n = (if n < 10 then of_nat (48 + n) else of_nat (87 + n))"

definition unicodeEscape :: "code_unit \<Rightarrow> jsstring" where
  "unicodeEscape c =
     [0x5C, 0x75, hexDigit (unat c div 4096), hexDigit (unat c div 256 mod 16),
      hexDigit (unat c div 16 mod 16), hexDigit (unat c mod 16)]"

definition isLeadingSurrogate :: "code_unit \<Rightarrow> bool" where
  "isLeadingSurrogate c \<longleftrightarrow> 0xD800 \<le> c \<and> c \<le> 0xDBFF"

definition isTrailingSurrogate :: "code_unit \<Rightarrow> bool" where
  "isTrailingSurrogate c \<longleftrightarrow> 0xDC00 \<le> c \<and> c \<le> 0xDFFF"

definition quoteUnit :: "code_unit \<Rightarrow> jsstring" where
  "quoteUnit c =
     (if c = 0x08 then [0x5C, 0x62]
      else if c = 0x09 then [0x5C, 0x74]
      else if c = 0x0A then [0x5C, 0x6E]
      else if c = 0x0C then [0x5C, 0x66]
      else if c = 0x0D then [0x5C, 0x72]
      else if c = 0x22 then [0x5C, 0x22]
      else if c = 0x5C then [0x5C, 0x5C]
      else if c < 0x20 \<or> isLeadingSurrogate c \<or> isTrailingSurrogate c then unicodeEscape c
      else [c])"

fun quoteBody :: "jsstring \<Rightarrow> jsstring" where
  "quoteBody [] = []"
| "quoteBody [c] = quoteUnit c"
| "quoteBody (c # d # cs) =
     (if isLeadingSurrogate c \<and> isTrailingSurrogate d then c # d # quoteBody cs
      else quoteUnit c @ quoteBody (d # cs))"

definition quoteJSONString :: "jsstring \<Rightarrow> jsstring" where
  "quoteJSONString s = 0x22 # quoteBody s @ [0x22]"

text \<open>
  Number::toString on a time value: the decimal digits, after a minus sign when negative.
  From \<open>10\<^sup>2\<^sup>1\<close> on in magnitude an engine writes an exponent instead, so this is the
  serialisation of an id only where \<open>isTimeValue\<close> holds; what is proved of
  \<open>JSON_stringify\<close> below is proved of documents that are \<open>timeValued\<close>.
\<close>

fun decimal :: "nat \<Rightarrow> jsstring" where
  "decimal n = (if n < 10 then [of_nat (48 + n)] else decimal (n div 10) @ [of_nat (48 + n mod 10)])"

definition numberToString :: "int \<Rightarrow> jsstring" where
  "numberToString n = (if n < 0 then 0x2D # decimal (nat (- n)) else decimal (nat n))"

text \<open>
  SerializeJSONObject and SerializeJSONArray without a gap: the properties, each
  \<open>"key":value\<close>, or the elements, separated by commas.
\<close>

fun commaSeparated :: "jsstring list \<Rightarrow> jsstring" where
  "commaSeparated [] = []"
| "commaSeparated [x] = x"
| "commaSeparated (x # y # xs) = x @ 0x2C # commaSeparated (y # xs)"

definition property :: "string \<Rightarrow> jsstring \<Rightarrow> jsstring" where
  "property k v = quoteJSONString (js k) @ 0x3A # v"

definition serializeObject :: "jsstring list \<Rightarrow> jsstring" where
  "serializeObject ps = 0x7B # commaSeparated ps @ [0x7D]"

definition serializeArray :: "jsstring list \<Rightarrow> jsstring" where
  "serializeArray xs = 0x5B # commaSeparated xs @ [0x5D]"

definition stringifyOrNull :: "jsstring option \<Rightarrow> jsstring" where
  "stringifyOrNull v = (case v of None \<Rightarrow> js ''null'' | Some p \<Rightarrow> quoteJSONString p)"

definition stringifyMember :: "member \<Rightarrow> jsstring" where
  "stringifyMember m =
     serializeObject
       [property ''id'' (numberToString (m_id m)),
        property ''name'' (quoteJSONString (m_name m)),
        property ''position'' (quoteJSONString (m_position m)),
        property ''work'' (quoteJSONString (m_work m)),
        property ''photo'' (stringifyOrNull (m_photo m))]"

definition stringifyIdea :: "idea \<Rightarrow> jsstring" where
  "stringifyIdea i =
     serializeObject
       [property ''id'' (numberToString (i_id i)),
        property ''title'' (quoteJSONString (i_title i)),
        property ''description'' (quoteJSONString (i_description i)),
        property ''image'' (stringifyOrNull (i_image i)),
        property ''status'' (quoteJSONString (i_status i)),
        property ''submittedAt'' (quoteJSONString (i_submittedAt i))]"

definition JSON_stringify :: "document \<Rightarrow> jsstring" where
  "JSON_stringify d =
     serializeObject
       [property ''sanghName'' (quoteJSONString (sanghName d)),
        property ''description'' (quoteJSONString (description d)),
        property ''members'' (serializeArray (map stringifyMember (members d))),
        property ''ideas'' (serializeArray (map stringifyIdea (ideas d)))]"

subsection \<open>\<open>JSON.parse\<close>\<close>

text \<open>
  The JSON grammar, by recursive descent. A parser returns the value it read and the rest
  of the input, or \<open>None\<close> where \<open>JSON.parse\<close> throws a SyntaxError. White space is TAB,
  LF, CR and SP.
\<close>

definition isJSONWhiteSpace :: "code_unit \<Rightarrow> bool" where
  "isJSONWhiteSpace c \<longleftrightarrow> c = 0x09 \<or> c = 0x0A \<or> c = 0x0D \<or> c = 0x20"

definition skipWs :: "jsstring \<Rightarrow> jsstring" where
  "skipWs cs = dropWhile isJSONWhiteSpace cs"

definition isDigit :: "code_unit \<Rightarrow> bool" where
  "isDigit c \<longleftrightarrow> 0x30 \<le> c \<and> c \<le> 0x39"

definition digitValue :: "code_unit \<Rightarrow> nat" where
  "digitValue c = unat c - 48"

definition hexValue :: "code_unit \<Rightarrow> nat option" where
  "hexValue c =
     (if 0x30 \<le> c \<and> c \<le> 0x39 then Some (unat c - 48)
      else if 0x61 \<le> c \<and> c \<le> 0x66 then Some (unat c - 87)
      else if 0x41 \<le> c \<and> c \<le> 0x46 then Some (unat c - 55)
      else None)"

text \<open>The character after a backslash: \<open>" \ / b f n r t\<close>.\<close>

definition unescape :: "code_unit \<Rightarrow> code_unit option" where
  "unescape e =
     (if e = 0x22 then Some 0x22
      else if e = 0x5C then Some 0x5C
      else if e = 0x2F then Some 0x2F
      else if e = 0x62 then Some 0x08
      else if e = 0x66 then Some 0x0C
      else if e = 0x6E then Some 0x0A
      else if e = 0x72 then Some 0x0D
      else if e = 0x74 then Some 0x09
      else None)"

definition consResult :: "'a \<Rightarrow> ('a list \<times> 'b) option \<Rightarrow> ('a list \<times> 'b) option" where
  "consResult x r = (case r of None \<Rightarrow> None | Some (xs, rest) \<Rightarrow> Some (x # xs, rest))"

text \<open>A string after its opening quote, up to and including the closing quote.\<close>

fun parseStringBody :: "jsstring \<Rightarrow> (jsstring \<times> jsstring) option" where
  "parseStringBody [] = None"
| "parseStringBody (c # cs) =
     (if c = 0x22 then Some ([], cs)
      else if c = 0x5C then
        (case cs of
           [] \<Rightarrow> None
         | e # r \<Rightarrow>
             if e = 0x75 then
               (case r of
                  h1 # h2 # h3 # h4 # r' \<Rightarrow>
                    (case (hexValue h1, hexValue h2, hexValue h3, hexValue h4) of
                       (Some a, Some b, Some c', Some d) \<Rightarrow>
                         consResult (of_nat (((a * 16 + b) * 16 + c') * 16 + d))
                           (parseStringBody r')
                     | _ \<Rightarrow> None)
                | _ \<Rightarrow> None)
             else
               (case unescape e of
                  None \<Rightarrow> None
                | Some u \<Rightarrow> consResult u (parseStringBody r)))
      else if c < 0x20 then None
      else consResult c (parseStringBody cs))"

text \<open>
  A number: an optional minus sign, the integer part (\<open>0\<close>, or a digit from 1 to 9 and
  further digits), an optional fraction (a point and at least one digit) and an optional
  exponent (\<open>e\<close> or \<open>E\<close>, an optional sign, at least one digit).
\<close>

definition digitsValue :: "jsstring \<Rightarrow> nat" where
  "digitsValue ds = foldl (\<lambda>acc d. acc * 10 + digitValue d) 0 ds"

definition parseInt :: "jsstring \<Rightarrow> (nat \<times> jsstring) option" where
  "parseInt cs =
     (case cs of
        [] \<Rightarrow> None
      | c # r \<Rightarrow>
          if c = 0x30 then Some (0, r)
          else if isDigit c then Some (digitsValue (takeWhile isDigit cs), dropWhile isDigit cs)
          else None)"

definition parseFrac :: "jsstring \<Rightarrow> (rat \<times> jsstring) option" where
  "parseFrac cs =
     (case cs of
        [] \<Rightarrow> Some (0, [])
      | c # r \<Rightarrow>
          if c = 0x2E then
            (let ds = takeWhile isDigit r
             in if ds = [] then None
                else Some (of_nat (digitsValue ds) / 10 ^ length ds, dropWhile isDigit r))
          else Some (0, cs))"

definition parseExp :: "jsstring \<Rightarrow> (int \<times> jsstring) option" where
  "parseExp cs =
     (case cs of
        [] \<Rightarrow> Some (0, [])
      | c # r \<Rightarrow>
          if c = 0x65 \<or> c = 0x45 then
            (let neg = (case r of [] \<Rightarrow> False | s # _ \<Rightarrow> s = 0x2D);
                 r1 = (case r of [] \<Rightarrow> [] | s # t \<Rightarrow> if s = 0x2B \<or> s = 0x2D then t else r);
                 ds = takeWhile isDigit r1
             in if ds = [] then None
                else Some (if neg then - int (digitsValue ds) else int (digitsValue ds),
                           dropWhile isDigit r1))
          else Some (0, cs))"

definition scale :: "rat \<Rightarrow> int \<Rightarrow> rat" where
  "scale q e = (if 0 \<le> e then q * 10 ^ nat e else q / 10 ^ nat (- e))"

definition parseNumber :: "jsstring \<Rightarrow> (rat \<times> jsstring) option" where
  "parseNumber cs =
     (let neg = (case cs of [] \<Rightarrow> False | c # _ \<Rightarrow> c = 0x2D);
          cs1 = (if neg then tl cs else cs)
      in case parseInt cs1 of
           None \<Rightarrow> None
         | Some (i, cs2) \<Rightarrow>
             (case parseFrac cs2 of
                None \<Rightarrow> None
              | Some (f, cs3) \<Rightarrow>
                  (case parseExp cs3 of
                     None \<Rightarrow> None
                   | Some (e, cs4) \<Rightarrow>
                       Some (scale (if neg then - (of_nat i + f) else of_nat i + f) e, cs4))))"

definition parseLiteral :: "jsstring \<Rightarrow> json \<Rightarrow> jsstring \<Rightarrow> (json \<times> jsstring) option" where
  "parseLiteral lit v cs =
     (if take (length lit) cs = lit then Some (v, drop (length lit) cs) else None)"

text \<open>
  A value, the elements of an array after \<open>[\<close> and the properties of an object after
  \<open>{\<close>. A property whose key was read before replaces the value of the earlier one and
  keeps its place. Each call that follows a value is guarded by the input having become
  shorter, which it always has (\<open>parseValue_shorter\<close>, \<open>parseElements_unguarded\<close> and
  \<open>parseMembers_unguarded\<close> below), so that the recursion is well-founded by the length of
  the input.
\<close>

function parseValue :: "jsstring \<Rightarrow> (json \<times> jsstring) option"
  and parseElements :: "jsstring \<Rightarrow> (json list \<times> jsstring) option"
  and parseMembers :: "jsstring \<Rightarrow> ((jsstring \<times> json) list \<times> jsstring) option"
where
  "parseValue cs =
     (case cs of
        [] \<Rightarrow> None
      | c # r \<Rightarrow>
          if c = 0x22 then
            (case parseStringBody r of None \<Rightarrow> None | Some (s, r') \<Rightarrow> Some (JString s, r'))
          else if c = 0x5B then
            (case skipWs r of
               [] \<Rightarrow> None
             | d # r' \<Rightarrow>
                 if d = 0x5D then Some (JArray [], r')
                 else (case parseElements (d # r') of
                         None \<Rightarrow> None
                       | Some (vs, r'') \<Rightarrow> Some (JArray vs, r'')))
          else if c = 0x7B then
            (case skipWs r of
               [] \<Rightarrow> None
             | d # r' \<Rightarrow>
                 if d = 0x7D then Some (JObject [], r')
                 else (case parseMembers (d # r') of
                         None \<Rightarrow> None
                       | Some (ps, r'') \<Rightarrow>
                           Some (JObject (foldl (\<lambda>acc (k, v). AList.update k v acc) [] ps), r'')))
          else if c = 0x74 then parseLiteral (js ''true'') (JBool True) cs
          else if c = 0x66 then parseLiteral (js ''false'') (JBool False) cs
          else if c = 0x6E then parseLiteral (js ''null'') JNull cs
          else if c = 0x2D \<or> isDigit c then
            (case parseNumber cs of None \<Rightarrow> None | Some (q, r') \<Rightarrow> Some (JNum q, r'))
          else None)"
| "parseElements cs =
     (case parseValue cs of
        None \<Rightarrow> None
      | Some (v, r) \<Rightarrow>
          if length r < length cs then
            (case skipWs r of
               [] \<Rightarrow> None
             | c # r' \<Rightarrow>
                 if c = 0x2C then consResult v (parseElements (skipWs r'))
                 else if c = 0x5D then Some ([v], r')
                 else None)
          else None)"
| "parseMembers cs =
     (case cs of
        [] \<Rightarrow> None
      | q # r0 \<Rightarrow>
          if q = 0x22 then
            (case parseStringBody r0 of
               None \<Rightarrow> None
             | Some (k, r1) \<Rightarrow>
                 (case skipWs r1 of
                    [] \<Rightarrow> None
                  | c # r2 \<Rightarrow>
                      if c = 0x3A \<and> length r2 < length cs then
                        (case parseValue (skipWs r2) of
                           None \<Rightarrow> None
                         | Some (v, r3) \<Rightarrow>
                             if length r3 < length cs then
                               (case skipWs r3 of
                                  [] \<Rightarrow> None
                                | d # r4 \<Rightarrow>
                                    if d = 0x2C then consResult (k, v) (parseMembers (skipWs r4))
                                    else if d = 0x7D then Some ([(k, v)], r4)
                                    else None)
                             else None)
                      else None))
          else None)"
  by pat_completeness auto
termination
  apply (relation "measure (\<lambda>x. case x of
            Inl cs \<Rightarrow> 2 * length cs
          | Inr (Inl cs) \<Rightarrow> 2 * length cs + 1
          | Inr (Inr cs) \<Rightarrow> 2 * length cs + 1)")
  apply (simp_all add: skipWs_def)
  subgoal premises p for cs c r d r'
    using length_dropWhile_le [of isJSONWhiteSpace r] unfolding p(3) by simp
  subgoal premises p for cs c r d r'
    using length_dropWhile_le [of isJSONWhiteSpace r] unfolding p(3) by simp
  subgoal premises p for cs x2 v r c r'
    using length_dropWhile_le [of isJSONWhiteSpace r] length_dropWhile_le [of isJSONWhiteSpace r']
      p(3) unfolding p(4) by simp
  subgoal premises p for cs q r0 x2 k r1 r2
    using length_dropWhile_le [of isJSONWhiteSpace r2] p(6) by simp
  subgoal premises p for cs q r0 x2 k r1 r2 x2a v r3 d r4
    using length_dropWhile_le [of isJSONWhiteSpace r3] length_dropWhile_le [of isJSONWhiteSpace r4]
      p(9) unfolding p(10) by simp
  done

text \<open>The whole text is one value, with white space allowed before and after it.\<close>

definition JSON_parse :: "jsstring \<Rightarrow> json option" where
  "JSON_parse text =
     (case parseValue (skipWs text) of
        None \<Rightarrow> None
      | Some (v, r) \<Rightarrow> if skipWs r = [] then Some v else None)"

section \<open>The persisted slot\<close>

text \<open>
  \<open>localStorage\<close>: the items of the origin, in the order they were first written. Reading or
  writing throws a SecurityError when the page is denied access to storage; writing throws
  a QuotaExceededError when the items, counted in code units of keys and values, would
  exceed the quota of the origin.
\<close>

datatype storage_error = SecurityError | QuotaExceededError

record storage =
  denied :: bool
  quota :: nat
  items :: "(jsstring \<times> jsstring) list"

definition usage :: "(jsstring \<times> jsstring) list \<Rightarrow> nat" where
  "usage kvs = sum_list (map (\<lambda>(k, v). length k + length v) kvs)"

definition getItem :: "storage \<Rightarrow> jsstring \<Rightarrow> storage_error + jsstring option" where
  "getItem st key = (if denied st then Inl SecurityError else Inr (map_of (items st) key))"

definition setItem :: "storage \<Rightarrow> jsstring \<Rightarrow> jsstring \<Rightarrow> storage_error + storage" where
  "setItem st key v =
     (if denied st then Inl SecurityError
      else if quota st < usage (AList.update key v (items st)) then Inl QuotaExceededError
      else Inr (st\<lparr>items := AList.update key v (items st)\<rparr>))"

definition LS_KEY :: jsstring where
  "LS_KEY = js ''hindi_ekta_shangh_data_v1''"

text \<open>
  \<open>useLocalStorageState\<close> (lines 31 to 46). \<open>load\<close> is the initialiser of the state: the
  item, parsed, when there is one and it is not the empty string, and \<open>initial\<close> when
  there is none or anything in the \<open>try\<close> block throws. What it returns is not checked
  against the shape of a document. \<open>save\<close> is the effect that runs after a change of
  state: it writes the serialised state to the slot, and an exception is caught and
  dropped. \<open>saveEffect\<close> is that effect on the state in memory together with the storage.
\<close>

definition load :: "storage \<Rightarrow> jsstring \<Rightarrow> json \<Rightarrow> json" where
  "load st key initial =
     (case getItem st key of
        Inl e \<Rightarrow> initial
      | Inr None \<Rightarrow> initial
      | Inr (Some raw) \<Rightarrow>
          if raw = [] then initial
          else (case JSON_parse raw of None \<Rightarrow> initial | Some v \<Rightarrow> v))"

definition save :: "storage \<Rightarrow> jsstring \<Rightarrow> document \<Rightarrow> storage" where
  "save st key state =
     (case setItem st key (JSON_stringify state) of Inl e \<Rightarrow> st | Inr st' \<Rightarrow> st')"

definition saveEffect :: "jsstring \<Rightarrow> document \<times> storage \<Rightarrow> document \<times> storage" where
  "saveEffect key w = (fst w, save (snd w) key (fst w))"

section \<open>Scenarios\<close>

text \<open>
  States reached from the initial one, used as examples below: one idea submitted, the same
  idea acted on, two members added at the same reading of the clock and at different ones,
  forms filled with padded text, a document with a photo, a quoted title, a line feed and
  a lone surrogate, and four states of the storage: empty, holding text that is not JSON,
  denied to the page, and with a quota too small for any document.
\<close>

definition fixGateApp :: app where
  "fixGateApp = snd (submitIdea 1700000000000 (js ''2023-11-14T22:13:20.000Z'')
                   (initialApp\<lparr>ideaForm := emptyIdeaForm\<lparr>if_title := js ''Fix gate''\<rparr>\<rparr>))"

definition takenApp :: app where
  "takenApp = takeActionOnIdea 1700000000000 fixGateApp"

definition ashaForm :: member_form where
  "ashaForm = \<lparr>mf_name = js ''Asha'', mf_position = [], mf_work = [], mf_photoDataUrl = []\<rparr>"

definition nightPatrolApp :: app where
  "nightPatrolApp = snd (submitIdea 1700000000000 (js ''2023-11-14T22:13:20.000Z'')
       (initialApp\<lparr>ideaForm := emptyIdeaForm\<lparr>if_title := js ''Night patrol''\<rparr>\<rparr>))"

definition twinsApp :: app where
  "twinsApp = run [MemberNameChanged (js ''Asha''), AddMember 1700000000000,
                   MemberNameChanged (js ''Ravi''), AddMember 1700000000000] initialApp"

definition pairApp :: app where
  "pairApp = run [MemberNameChanged (js ''Asha''), AddMember 1700000000000,
                  MemberNameChanged (js ''Ravi''), AddMember 1700000060000] initialApp"

definition paddedApp :: app where
  "paddedApp = initialApp\<lparr>memberForm := emptyMemberForm\<lparr>mf_name := js '' Asha ''\<rparr>,
                          ideaForm := emptyIdeaForm\<lparr>if_title := js '' Fix gate ''\<rparr>\<rparr>"

definition emptyStorage :: storage where
  "emptyStorage = \<lparr>denied = False, quota = 5242880, items = []\<rparr>"


definition corruptStorage :: storage where
  "corruptStorage = emptyStorage\<lparr>items := [(LS_KEY, js ''{not json'')]\<rparr>"

definition deniedStorage :: storage where
  "deniedStorage = emptyStorage\<lparr>denied := True\<rparr>"

definition fullStorage :: storage where
  "fullStorage = emptyStorage\<lparr>quota := 10\<rparr>"

text \<open>
  The equations of the recursive parsers and of \<open>decimal\<close> rewrite a call with any
  argument; they are applied by hand below.
\<close>

declare parseValue.simps [simp del] parseElements.simps [simp del] parseMembers.simps [simp del]

declare decimal.simps [simp del]

section \<open>Validation\<close>

text \<open>
  C4. When the name of the member form is empty, or only whitespace, after trimming,
  \<open>addMember\<close> returns the state it was given: the document, and with it \<open>members\<close>, is
  unchanged and the form keeps what was entered. The handler raises its alert.
\<close>

theorem addMember_blank_name:
  assumes "trim (mf_name (memberForm s)) = []"
  shows "snd (addMember now s) = s \<and> fst (addMember now s) = Some alertName"
  using assms by (simp add: addMember_def)

theorem addMember_blank_name_witness:
  "trim (mf_name (memberForm (initialApp\<lparr>memberForm :=
       \<lparr>mf_name = js ''  '', mf_position = js ''Guard'', mf_work = js ''Gate'',
        mf_photoDataUrl = []\<rparr>\<rparr>))) = []
   \<and> snd (addMember 1700000000000 (initialApp\<lparr>memberForm :=
       \<lparr>mf_name = js ''  '', mf_position = js ''Guard'', mf_work = js ''Gate'',
        mf_photoDataUrl = []\<rparr>\<rparr>))
     = initialApp\<lparr>memberForm :=
       \<lparr>mf_name = js ''  '', mf_position = js ''Guard'', mf_work = js ''Gate'',
        mf_photoDataUrl = []\<rparr>\<rparr>"
proof -
  let ?s = "initialApp\<lparr>memberForm :=
       \<lparr>mf_name = js ''  '', mf_position = js ''Guard'', mf_work = js ''Gate'',
        mf_photoDataUrl = []\<rparr>\<rparr>"
  have h: "trim (mf_name (memberForm ?s)) = []"
    by (simp add: js_def trim_def isWhiteSpace_def)
  from h addMember_blank_name [OF h, of 1700000000000] show ?thesis by simp
qed

section \<open>The idea tracker and the member registry\<close>

text \<open>
  C1, as stated, fails on the string: after ``Fix gate'' is submitted and acted on, the
  status of the idea is not \<open>"ActionTaken"\<close>; the handler writes \<open>"Action Taken"\<close>.
\<close>

theorem takeActionOnIdea_string_counterexample:
  "i_id (ideas (data fixGateApp) ! 0) = 1700000000000
   \<and> i_status (ideas (data fixGateApp) ! 0) = js ''Open''
   \<and> i_status (ideas (data (takeActionOnIdea 1700000000000 fixGateApp)) ! 0) \<noteq> js ''ActionTaken''"
  by (simp add: fixGateApp_def submitIdea_def takeActionOnIdea_def initialApp_def
      emptyIdeaForm_def seedDocument_def js_def trim_def isWhiteSpace_def orNull_def Let_def)

text \<open>
  C1, amended. For a document holding an idea with id \<open>x\<close> (at index \<open>k\<close>),
  \<open>takeActionOnIdea x\<close> yields a document in which that idea has the status
  \<open>"Action Taken"\<close> and is otherwise as before, the ideas are as many as before, every idea
  with another id is unchanged, and so are the members, the name, the description and the
  two forms.
\<close>

theorem takeActionOnIdea_marks:
  assumes "k < length (ideas (data s))" and "i_id (ideas (data s) ! k) = x"
  shows "ideas (data (takeActionOnIdea x s)) ! k = (ideas (data s) ! k)\<lparr>i_status := js ''Action Taken''\<rparr>
     \<and> i_status (ideas (data (takeActionOnIdea x s)) ! k) = js ''Action Taken''
     \<and> length (ideas (data (takeActionOnIdea x s))) = length (ideas (data s))
     \<and> (\<forall>j < length (ideas (data s)). i_id (ideas (data s) ! j) \<noteq> x \<longrightarrow>
           ideas (data (takeActionOnIdea x s)) ! j = ideas (data s) ! j)
     \<and> members (data (takeActionOnIdea x s)) = members (data s)
     \<and> sanghName (data (takeActionOnIdea x s)) = sanghName (data s)
     \<and> description (data (takeActionOnIdea x s)) = description (data s)
     \<and> memberForm (takeActionOnIdea x s) = memberForm s
     \<and> ideaForm (takeActionOnIdea x s) = ideaForm s"
  using assms by (simp add: takeActionOnIdea_def)

theorem takeActionOnIdea_marks_witness:
  "0 < length (ideas (data fixGateApp)) \<and> i_id (ideas (data fixGateApp) ! 0) = 1700000000000
   \<and> i_status (ideas (data fixGateApp) ! 0) = js ''Open''
   \<and> i_status (ideas (data (takeActionOnIdea 1700000000000 fixGateApp)) ! 0) = js ''Action Taken''"
proof -
  have h1: "0 < length (ideas (data fixGateApp))"
    and h2: "i_id (ideas (data fixGateApp) ! 0) = 1700000000000"
    and h3: "i_status (ideas (data fixGateApp) ! 0) = js ''Open''"
    by (simp_all add: fixGateApp_def submitIdea_def initialApp_def
      emptyIdeaForm_def seedDocument_def js_def trim_def isWhiteSpace_def orNull_def Let_def)
  from takeActionOnIdea_marks [OF h1 h2] h1 h2 h3 show ?thesis by simp
qed

lemma takeAction_idem: "takeActionOnIdea x (takeActionOnIdea x s) = takeActionOnIdea x s"
  by (simp add: takeActionOnIdea_def comp_def cong: map_cong)

lemma map_mark_id:
  "(\<forall>i\<in>set xs. i_id i = x \<longrightarrow> i_status i = st) \<Longrightarrow>
   map (\<lambda>i. if i_id i = x then i\<lparr>i_status := st\<rparr> else i) xs = xs"
  by (induction xs) auto

lemma takeAction_noop:
  "(\<forall>i\<in>set (ideas (data s)). i_id i = x \<longrightarrow> i_status i = js ''Action Taken'') \<Longrightarrow>
   takeActionOnIdea x s = s"
  by (simp add: takeActionOnIdea_def map_mark_id)

lemma step_keeps_taken:
  assumes "k < length (ideas (data s))"
    and "i_status (ideas (data s) ! k) = js ''Action Taken''"
  shows "length (ideas (data s)) \<le> length (ideas (data (step e s)))
     \<and> ideas (data (step e s)) ! (k + (length (ideas (data (step e s))) - length (ideas (data s))))
         = ideas (data s) ! k"
proof (cases e)
  case (SubmitIdea now stamp)
  then show ?thesis using assms by (simp add: submitIdea_def Let_def)
next
  case (TakeActionOnIdea x)
  then show ?thesis using assms by (simp add: takeActionOnIdea_def)
next
  case (AddMember now)
  then show ?thesis using assms by (simp add: addMember_def Let_def)
next
  case (RemoveMember c x)
  then show ?thesis using assms by (simp add: removeMember_def)
qed (use assms in simp_all)

lemma run_keeps_taken:
  "k < length (ideas (data s)) \<Longrightarrow> i_status (ideas (data s) ! k) = js ''Action Taken'' \<Longrightarrow>
   length (ideas (data s)) \<le> length (ideas (data (run evs s)))
   \<and> ideas (data (run evs s)) ! (k + (length (ideas (data (run evs s))) - length (ideas (data s))))
       = ideas (data s) ! k"
proof (induction evs arbitrary: s k)
  case Nil
  then show ?case by simp
next
  case (Cons e es)
  let ?s1 = "step e s"
  let ?d = "length (ideas (data ?s1)) - length (ideas (data s))"
  from step_keeps_taken [OF Cons.prems, of e]
  have le1: "length (ideas (data s)) \<le> length (ideas (data ?s1))"
    and at1: "ideas (data ?s1) ! (k + ?d) = ideas (data s) ! k" by blast+
  have k1: "k + ?d < length (ideas (data ?s1))" using Cons.prems(1) le1 by arith
  have st1: "i_status (ideas (data ?s1) ! (k + ?d)) = js ''Action Taken''"
    using at1 Cons.prems(2) by simp
  from Cons.IH [OF k1 st1]
  have le2: "length (ideas (data ?s1)) \<le> length (ideas (data (run es ?s1)))"
    and at2: "ideas (data (run es ?s1)) !
        (k + ?d + (length (ideas (data (run es ?s1))) - length (ideas (data ?s1))))
         = ideas (data ?s1) ! (k + ?d)" by blast+
  have idx: "k + ?d + (length (ideas (data (run es ?s1))) - length (ideas (data ?s1)))
      = k + (length (ideas (data (run es ?s1))) - length (ideas (data s)))"
    using le1 le2 by arith
  have "length (ideas (data s)) \<le> length (ideas (data (run es ?s1)))"
    using le1 le2 by arith
  moreover have "ideas (data (run es ?s1)) !
      (k + (length (ideas (data (run es ?s1))) - length (ideas (data s)))) = ideas (data s) ! k"
    using at1 at2 idx by metis
  ultimately show ?case by simp
qed

text \<open>
  C3. \<open>takeActionOnIdea x\<close> is idempotent. When no idea has id \<open>x\<close>, or every idea with
  id \<open>x\<close> already has the status \<open>"Action Taken"\<close>, it returns the state it was given. And
  an idea with that status keeps it through every sequence of events: after the run it is
  found, unchanged, at its old index shifted by the number of ideas submitted since, so its
  status is never \<open>"Open"\<close> again.
\<close>

theorem takeActionOnIdea_idempotent_one_way:
  "takeActionOnIdea x (takeActionOnIdea x s) = takeActionOnIdea x s
   \<and> ((\<forall>i\<in>set (ideas (data s)). i_id i \<noteq> x) \<longrightarrow> takeActionOnIdea x s = s)
   \<and> ((\<forall>i\<in>set (ideas (data s)). i_id i = x \<longrightarrow> i_status i = js ''Action Taken'')
        \<longrightarrow> takeActionOnIdea x s = s)
   \<and> (k < length (ideas (data s)) \<and> i_status (ideas (data s) ! k) = js ''Action Taken'' \<longrightarrow>
        length (ideas (data s)) \<le> length (ideas (data (run evs s)))
        \<and> ideas (data (run evs s)) ! (k + (length (ideas (data (run evs s))) - length (ideas (data s))))
            = ideas (data s) ! k
        \<and> i_status (ideas (data (run evs s)) !
              (k + (length (ideas (data (run evs s))) - length (ideas (data s)))))
            \<noteq> js ''Open'')"
proof -
  have ne: "js ''Action Taken'' \<noteq> js ''Open''" by (simp add: js_def)
  show ?thesis
    using takeAction_idem [of x s] takeAction_noop [of s x] run_keeps_taken [of k s evs] ne
    by auto
qed

lemma takenApp_eval:
  "takenApp = \<lparr>data = seedDocument\<lparr>ideas :=
      [\<lparr>i_id = 1700000000000, i_title = js ''Fix gate'', i_description = [], i_image = None,
        i_status = js ''Action Taken'', i_submittedAt = js ''2023-11-14T22:13:20.000Z''\<rparr>]\<rparr>,
     memberForm = emptyMemberForm, ideaForm = emptyIdeaForm\<rparr>"
  by (simp add: takenApp_def fixGateApp_def submitIdea_def takeActionOnIdea_def initialApp_def
      emptyIdeaForm_def seedDocument_def js_def trim_def isWhiteSpace_def orNull_def Let_def)

theorem takeActionOnIdea_idempotent_one_way_witness:
  "map i_id (ideas (data takenApp)) = [1700000000000]
   \<and> map i_status (ideas (data takenApp)) = [js ''Action Taken'']
   \<and> takeActionOnIdea 5 takenApp = takenApp
   \<and> takeActionOnIdea 1700000000000 takenApp = takenApp
   \<and> 0 < length (ideas (data takenApp))
   \<and> i_status (ideas (data takenApp) ! 0) = js ''Action Taken''
   \<and> i_status (ideas (data (run [IdeaTitleChanged (js ''Night patrol''),
           SubmitIdea 1700000000001 (js ''2023-11-14T22:13:20.001Z''),
           TakeActionOnIdea 1700000000001, TakeActionOnIdea 1700000000000] takenApp)) ! 1)
       = js ''Action Taken''"
proof -
  let ?evs = "[IdeaTitleChanged (js ''Night patrol''),
           SubmitIdea 1700000000001 (js ''2023-11-14T22:13:20.001Z''),
           TakeActionOnIdea 1700000000001, TakeActionOnIdea 1700000000000]"
  have h1: "\<forall>i\<in>set (ideas (data takenApp)). i_id i \<noteq> 5"
    and h2: "\<forall>i\<in>set (ideas (data takenApp)). i_id i = 1700000000000 \<longrightarrow> i_status i = js ''Action Taken''"
    and h3: "0 < length (ideas (data takenApp))"
    and h4: "i_status (ideas (data takenApp) ! 0) = js ''Action Taken''"
    by (simp_all add: takenApp_eval)
  have g1: "map i_id (ideas (data takenApp)) = [1700000000000]"
    and g2: "map i_status (ideas (data takenApp)) = [js ''Action Taken'']"
    by (simp_all add: takenApp_eval)
  have len: "length (ideas (data (run ?evs takenApp))) = 2"
    by (simp add: takenApp_eval submitIdea_def takeActionOnIdea_def emptyIdeaForm_def
        seedDocument_def js_def trim_def isWhiteSpace_def Let_def)
  have len0: "length (ideas (data takenApp)) = 1" by (simp add: takenApp_eval)
  from takeActionOnIdea_idempotent_one_way [of 5 takenApp 0 ?evs] h1
  have a: "takeActionOnIdea 5 takenApp = takenApp" by blast
  from takeActionOnIdea_idempotent_one_way [of 1700000000000 takenApp 0 ?evs] h2 h3 h4
  have b: "takeActionOnIdea 1700000000000 takenApp = takenApp"
    and c: "ideas (data (run ?evs takenApp)) !
              (0 + (length (ideas (data (run ?evs takenApp))) - length (ideas (data takenApp))))
            = ideas (data takenApp) ! 0" by blast+
  from c have "ideas (data (run ?evs takenApp)) ! 1 = ideas (data takenApp) ! 0"
    unfolding len len0 by simp
  with h4 have d: "i_status (ideas (data (run ?evs takenApp)) ! 1) = js ''Action Taken''" by simp
  from g1 g2 a b h3 h4 d show ?thesis by blast
qed

text \<open>
  C5, as stated, fails on the fresh id: the id is the reading of the clock, and a second
  member added at the same reading gets the id of the first.
\<close>

theorem addMember_fresh_counterexample:
  "trim (mf_name (memberForm (snd (addMember 1700000000000 (initialApp\<lparr>memberForm := ashaForm\<rparr>))
          \<lparr>memberForm := ashaForm\<rparr>))) \<noteq> []
   \<and> map m_id (members (data (snd (addMember 1700000000000
        (snd (addMember 1700000000000 (initialApp\<lparr>memberForm := ashaForm\<rparr>))
          \<lparr>memberForm := ashaForm\<rparr>)))))
     = [1700000000000, 1700000000000]"
  by (simp add: addMember_def initialApp_def ashaForm_def seedDocument_def js_def trim_def
      isWhiteSpace_def orNull_def Let_def emptyMemberForm_def)

text \<open>
  C5, amended. When the name of the form is not empty after trimming, \<open>addMember\<close> raises
  no alert and appends one member: \<open>members\<close> is the old sequence followed by the new
  member, whose id is the clock reading \<open>now\<close>, whose name, position and work are those of
  the form and whose photo is the data URL of the form, or \<open>null\<close> when that is empty. The
  id differs from every id in use whenever the clock reading does. The member form is
  reset to its empty defaults; the ideas, the name, the description and the idea form are
  unchanged. The witness is scenario A: from the seed document, adding ``Asha''.
\<close>

theorem addMember_appends:
  assumes "trim (mf_name (memberForm s)) \<noteq> []"
  shows "fst (addMember now s) = None
     \<and> members (data (snd (addMember now s)))
         = members (data s) @
           [\<lparr>m_id = now, m_name = mf_name (memberForm s), m_position = mf_position (memberForm s),
             m_work = mf_work (memberForm s),
             m_photo = (if mf_photoDataUrl (memberForm s) = [] then None
                        else Some (mf_photoDataUrl (memberForm s)))\<rparr>]
     \<and> length (members (data (snd (addMember now s)))) = length (members (data s)) + 1
     \<and> ((\<forall>m\<in>set (members (data s)). m_id m \<noteq> now) \<longrightarrow>
          (\<forall>m\<in>set (members (data s)). m_id m \<noteq> m_id (last (members (data (snd (addMember now s)))))))
     \<and> memberForm (snd (addMember now s)) = emptyMemberForm
     \<and> ideas (data (snd (addMember now s))) = ideas (data s)
     \<and> sanghName (data (snd (addMember now s))) = sanghName (data s)
     \<and> description (data (snd (addMember now s))) = description (data s)
     \<and> ideaForm (snd (addMember now s)) = ideaForm s"
  using assms by (simp add: addMember_def Let_def orNull_def)

theorem addMember_appends_witness:
  "trim (mf_name (memberForm (initialApp\<lparr>memberForm := ashaForm\<rparr>))) \<noteq> []
   \<and> members (data (initialApp\<lparr>memberForm := ashaForm\<rparr>)) = []
   \<and> members (data (snd (addMember 1700000000000 (initialApp\<lparr>memberForm := ashaForm\<rparr>))))
      = [\<lparr>m_id = 1700000000000, m_name = js ''Asha'', m_position = [], m_work = [], m_photo = None\<rparr>]
   \<and> memberForm (snd (addMember 1700000000000 (initialApp\<lparr>memberForm := ashaForm\<rparr>)))
      = \<lparr>mf_name = [], mf_position = [], mf_work = [], mf_photoDataUrl = []\<rparr>"
proof -
  let ?s = "initialApp\<lparr>memberForm := ashaForm\<rparr>"
  have h: "trim (mf_name (memberForm ?s)) \<noteq> []"
    by (simp add: ashaForm_def js_def trim_def isWhiteSpace_def)
  have e: "members (data ?s) = []" by (simp add: initialApp_def seedDocument_def)
  from addMember_appends [OF h, of 1700000000000] h e show ?thesis
    by (simp add: ashaForm_def emptyMemberForm_def)
qed

text \<open>
  C6. With a title that is empty after trimming, \<open>submitIdea\<close> returns the state it was
  given. Otherwise \<open>ideas\<close> grows by exactly one: the new idea is at index 0, with status
  \<open>"Open"\<close> and \<open>submittedAt\<close> the timestamp read at the call, and the ideas present before
  follow it in their order. The witness is scenario B.
\<close>

theorem submitIdea_prepends:
  "(trim (if_title (ideaForm s)) = [] \<longrightarrow> snd (submitIdea now stamp s) = s)
   \<and> (trim (if_title (ideaForm s)) \<noteq> [] \<longrightarrow>
        ideas (data (snd (submitIdea now stamp s)))
          = \<lparr>i_id = now, i_title = if_title (ideaForm s),
             i_description = if_description (ideaForm s),
             i_image = (if if_imageDataUrl (ideaForm s) = [] then None
                        else Some (if_imageDataUrl (ideaForm s))),
             i_status = js ''Open'', i_submittedAt = stamp\<rparr> # ideas (data s)
        \<and> length (ideas (data (snd (submitIdea now stamp s)))) = length (ideas (data s)) + 1
        \<and> i_status (ideas (data (snd (submitIdea now stamp s))) ! 0) = js ''Open''
        \<and> i_submittedAt (ideas (data (snd (submitIdea now stamp s))) ! 0) = stamp
        \<and> (\<forall>k < length (ideas (data s)).
              ideas (data (snd (submitIdea now stamp s))) ! (k + 1) = ideas (data s) ! k))"
  by (simp add: submitIdea_def Let_def orNull_def)

theorem submitIdea_prepends_witness:
  "trim (if_title (ideaForm (initialApp\<lparr>ideaForm := emptyIdeaForm\<lparr>if_title := js '' ''\<rparr>\<rparr>))) = []
   \<and> snd (submitIdea 1700000000000 (js ''2023-11-14T22:13:20.000Z'')
            (initialApp\<lparr>ideaForm := emptyIdeaForm\<lparr>if_title := js '' ''\<rparr>\<rparr>))
       = initialApp\<lparr>ideaForm := emptyIdeaForm\<lparr>if_title := js '' ''\<rparr>\<rparr>
   \<and> trim (if_title (ideaForm (nightPatrolApp\<lparr>ideaForm :=
          emptyIdeaForm\<lparr>if_title := js ''Better lighting''\<rparr>\<rparr>))) \<noteq> []
   \<and> map i_title (ideas (data (snd (submitIdea 1700000060000 (js ''2023-11-14T22:14:20.000Z'')
          (nightPatrolApp\<lparr>ideaForm := emptyIdeaForm\<lparr>if_title := js ''Better lighting''\<rparr>\<rparr>)))))
       = [js ''Better lighting'', js ''Night patrol'']"
proof -
  let ?b = "initialApp\<lparr>ideaForm := emptyIdeaForm\<lparr>if_title := js '' ''\<rparr>\<rparr>"
  let ?s = "nightPatrolApp\<lparr>ideaForm := emptyIdeaForm\<lparr>if_title := js ''Better lighting''\<rparr>\<rparr>"
  have hb: "trim (if_title (ideaForm ?b)) = []"
    by (simp add: js_def trim_def isWhiteSpace_def)
  have hs: "trim (if_title (ideaForm ?s)) \<noteq> []"
    by (simp add: js_def trim_def isWhiteSpace_def)
  have old: "map i_title (ideas (data ?s)) = [js ''Night patrol'']"
    by (simp add: nightPatrolApp_def submitIdea_def initialApp_def seedDocument_def
        emptyIdeaForm_def js_def trim_def isWhiteSpace_def Let_def)
  from submitIdea_prepends [of ?b 1700000000000 "js ''2023-11-14T22:13:20.000Z''"] hb
  have 1: "snd (submitIdea 1700000000000 (js ''2023-11-14T22:13:20.000Z'') ?b) = ?b" by blast
  from submitIdea_prepends [of ?s 1700000060000 "js ''2023-11-14T22:14:20.000Z''"] hs
  have "ideas (data (snd (submitIdea 1700000060000 (js ''2023-11-14T22:14:20.000Z'') ?s)))
          = \<lparr>i_id = 1700000060000, i_title = if_title (ideaForm ?s),
             i_description = if_description (ideaForm ?s),
             i_image = (if if_imageDataUrl (ideaForm ?s) = [] then None
                        else Some (if_imageDataUrl (ideaForm ?s))),
             i_status = js ''Open'', i_submittedAt = js ''2023-11-14T22:14:20.000Z''\<rparr>
            # ideas (data ?s)" by blast
  with old have 2: "map i_title (ideas (data (snd (submitIdea 1700000060000
      (js ''2023-11-14T22:14:20.000Z'') ?s)))) = [js ''Better lighting'', js ''Night patrol'']"
    by simp
  from hb 1 hs 2 show ?thesis by blast
qed

lemma twinsApp_eval:
  "twinsApp = \<lparr>data = seedDocument\<lparr>members :=
      [\<lparr>m_id = 1700000000000, m_name = js ''Asha'', m_position = [], m_work = [], m_photo = None\<rparr>,
       \<lparr>m_id = 1700000000000, m_name = js ''Ravi'', m_position = [], m_work = [], m_photo = None\<rparr>]\<rparr>,
     memberForm = emptyMemberForm, ideaForm = emptyIdeaForm\<rparr>"
  by (simp add: twinsApp_def addMember_def initialApp_def seedDocument_def js_def trim_def
      isWhiteSpace_def orNull_def Let_def emptyMemberForm_def)

text \<open>
  C7, as stated, fails where two members share an id, which two additions at one reading
  of the clock produce: confirmed removal of that id takes both away, not exactly one.
\<close>

theorem removeMember_one_counterexample:
  "length (members (data twinsApp)) = 2
   \<and> length (members (data (removeMember True 1700000000000 twinsApp))) = 0"
  by (simp add: twinsApp_eval removeMember_def)

text \<open>
  C7, amended. Declined, \<open>removeMember\<close> returns the state it was given. Confirmed, it
  removes every member whose id is \<open>x\<close> and no other member, keeping the order: the length
  of \<open>members\<close> drops by the number of members with that id, which is exactly 1 when the
  ids are pairwise distinct and \<open>x\<close> is among them; when no member has id \<open>x\<close> the state is
  unchanged. Ideas, name, description and forms are never touched.
\<close>

theorem removeMember_filters:
  "removeMember False x s = s
   \<and> (\<forall>m. m \<in> set (members (data (removeMember True x s)))
          \<longleftrightarrow> m \<in> set (members (data s)) \<and> m_id m \<noteq> x)
   \<and> members (data (removeMember True x s)) = filter (\<lambda>m. m_id m \<noteq> x) (members (data s))
   \<and> length (members (data (removeMember True x s)))
        + length (filter (\<lambda>m. m_id m = x) (members (data s))) = length (members (data s))
   \<and> (distinct (map m_id (members (data s))) \<and> x \<in> set (map m_id (members (data s))) \<longrightarrow>
        length (members (data (removeMember True x s))) + 1 = length (members (data s)))
   \<and> (x \<notin> set (map m_id (members (data s))) \<longrightarrow> removeMember True x s = s)
   \<and> ideas (data (removeMember True x s)) = ideas (data s)
   \<and> sanghName (data (removeMember True x s)) = sanghName (data s)
   \<and> description (data (removeMember True x s)) = description (data s)
   \<and> memberForm (removeMember True x s) = memberForm s
   \<and> ideaForm (removeMember True x s) = ideaForm s"
proof -
  have len: "length (filter (\<lambda>m. m_id m \<noteq> x) ms) + length (filter (\<lambda>m. m_id m = x) ms)
      = length ms" for ms :: "member list"
    by (induction ms) auto
  have one: "distinct (map m_id ms) \<Longrightarrow> x \<in> set (map m_id ms) \<Longrightarrow>
      length (filter (\<lambda>m. m_id m = x) ms) = 1" for ms :: "member list"
    by (induction ms) (auto simp: filter_empty_conv image_iff)
  have none: "x \<notin> set (map m_id ms) \<Longrightarrow> filter (\<lambda>m. m_id m \<noteq> x) ms = ms"
    for ms :: "member list"
    by (induction ms) auto
  show ?thesis
    using len [of "members (data s)"] one [of "members (data s)"] none [of "members (data s)"]
    by (auto simp: removeMember_def)
qed

lemma pairApp_eval:
  "pairApp = \<lparr>data = seedDocument\<lparr>members :=
      [\<lparr>m_id = 1700000000000, m_name = js ''Asha'', m_position = [], m_work = [], m_photo = None\<rparr>,
       \<lparr>m_id = 1700000060000, m_name = js ''Ravi'', m_position = [], m_work = [], m_photo = None\<rparr>]\<rparr>,
     memberForm = emptyMemberForm, ideaForm = emptyIdeaForm\<rparr>"
  by (simp add: pairApp_def addMember_def initialApp_def seedDocument_def js_def trim_def
      isWhiteSpace_def orNull_def Let_def emptyMemberForm_def)

theorem removeMember_filters_witness:
  "distinct (map m_id (members (data pairApp)))
   \<and> 1700000000000 \<in> set (map m_id (members (data pairApp)))
   \<and> length (members (data (removeMember True 1700000000000 pairApp))) + 1
        = length (members (data pairApp))
   \<and> 7 \<notin> set (map m_id (members (data pairApp)))
   \<and> removeMember True 7 pairApp = pairApp
   \<and> removeMember False 1700000000000 pairApp = pairApp"
proof -
  have h1: "distinct (map m_id (members (data pairApp)))"
    and h2: "1700000000000 \<in> set (map m_id (members (data pairApp)))"
    and h3: "7 \<notin> set (map m_id (members (data pairApp)))"
    by (simp_all add: pairApp_eval)
  from removeMember_filters [of 1700000000000 pairApp] h1 h2
  have a: "length (members (data (removeMember True 1700000000000 pairApp))) + 1
        = length (members (data pairApp))"
    and c: "removeMember False 1700000000000 pairApp = pairApp" by blast+
  from removeMember_filters [of 7 pairApp] h3
  have b: "removeMember True 7 pairApp = pairApp" by blast
  from h1 h2 a h3 b c show ?thesis by blast
qed

text \<open>
  C10. Trimming serves the validation only: when the trimmed name is not empty, the new
  member carries the name, position and work of the form as they were entered, and when
  the trimmed title is not empty, the new idea carries the title and the description as
  entered. The witness stores \<open>" Asha "\<close> and \<open>" Fix gate "\<close> with their spaces.
\<close>

theorem fields_stored_untrimmed:
  "(trim (mf_name (memberForm s)) \<noteq> [] \<longrightarrow>
      m_name (last (members (data (snd (addMember now s))))) = mf_name (memberForm s)
    \<and> m_position (last (members (data (snd (addMember now s))))) = mf_position (memberForm s)
    \<and> m_work (last (members (data (snd (addMember now s))))) = mf_work (memberForm s))
   \<and> (trim (if_title (ideaForm s)) \<noteq> [] \<longrightarrow>
      i_title (hd (ideas (data (snd (submitIdea now stamp s))))) = if_title (ideaForm s)
    \<and> i_description (hd (ideas (data (snd (submitIdea now stamp s)))))
        = if_description (ideaForm s))"
  by (simp add: addMember_def submitIdea_def Let_def)

theorem fields_stored_untrimmed_witness:
  "trim (mf_name (memberForm paddedApp)) \<noteq> []
   \<and> m_name (last (members (data (snd (addMember 1700000000000 paddedApp))))) = js '' Asha ''
   \<and> js '' Asha '' \<noteq> trim (js '' Asha '')
   \<and> trim (if_title (ideaForm paddedApp)) \<noteq> []
   \<and> i_title (hd (ideas (data (snd (submitIdea 1700000000000 (js ''2023-11-14T22:13:20.000Z'')
         paddedApp))))) = js '' Fix gate ''
   \<and> js '' Fix gate '' \<noteq> trim (js '' Fix gate '')"
proof -
  have h1: "trim (mf_name (memberForm paddedApp)) \<noteq> []"
    and h2: "trim (if_title (ideaForm paddedApp)) \<noteq> []"
    and h3: "js '' Asha '' \<noteq> trim (js '' Asha '')"
    and h4: "js '' Fix gate '' \<noteq> trim (js '' Fix gate '')"
    by (simp_all add: paddedApp_def js_def trim_def isWhiteSpace_def)
  have f: "mf_name (memberForm paddedApp) = js '' Asha ''"
    "if_title (ideaForm paddedApp) = js '' Fix gate ''"
    by (simp_all add: paddedApp_def)
  from fields_stored_untrimmed [of paddedApp 1700000000000 "js ''2023-11-14T22:13:20.000Z''"]
    h1 h2 f
  have a: "m_name (last (members (data (snd (addMember 1700000000000 paddedApp))))) = js '' Asha ''"
    and b: "i_title (hd (ideas (data (snd (submitIdea 1700000000000
        (js ''2023-11-14T22:13:20.000Z'') paddedApp))))) = js '' Fix gate ''"
    by simp_all
  from h1 a h3 h2 b h4 show ?thesis by blast
qed

text \<open>
  C2, as stated, fails: two members added at the same reading of the clock share their
  id, and so do two ideas.
\<close>

theorem ids_unique_counterexample:
  "\<not> distinct (map m_id (members (data (run
        [MemberNameChanged (js ''Asha''), AddMember 1700000000000,
         MemberNameChanged (js ''Ravi''), AddMember 1700000000000] initialApp))))
   \<and> \<not> distinct (map i_id (ideas (data (run
        [IdeaTitleChanged (js ''Night patrol''), SubmitIdea 1700000000000 (js ''2023-11-14T22:13:20.000Z''),
         IdeaTitleChanged (js ''Better lighting''), SubmitIdea 1700000000000 (js ''2023-11-14T22:13:20.000Z'')]
        initialApp))))"
  by (simp add: addMember_def submitIdea_def initialApp_def seedDocument_def js_def trim_def
      isWhiteSpace_def orNull_def Let_def emptyMemberForm_def emptyIdeaForm_def)

lemma memberClock_Cons: "memberClock (e # es) = memberClock [e] @ memberClock es"
  by (cases e) simp_all

lemma ideaClock_Cons: "ideaClock (e # es) = ideaClock [e] @ ideaClock es"
  by (cases e) simp_all

lemma step_member_ids:
  "set (map m_id (members (data (step e s))))
     \<subseteq> set (map m_id (members (data s))) \<union> set (memberClock [e])"
  by (cases e) (auto simp: addMember_def submitIdea_def takeActionOnIdea_def removeMember_def Let_def)

lemma step_member_distinct:
  "distinct (map m_id (members (data s))) \<Longrightarrow>
   set (map m_id (members (data s))) \<inter> set (memberClock [e]) = {} \<Longrightarrow>
   distinct (map m_id (members (data (step e s))))"
  by (cases e)
     (auto simp: addMember_def submitIdea_def takeActionOnIdea_def removeMember_def Let_def
        distinct_map_filter)

lemma step_idea_ids:
  "set (map i_id (ideas (data (step e s))))
     \<subseteq> set (map i_id (ideas (data s))) \<union> set (ideaClock [e])"
  by (cases e) (auto simp: addMember_def submitIdea_def takeActionOnIdea_def removeMember_def Let_def)

lemma map_id_mark:
  "map i_id (map (\<lambda>i. if i_id i = x then i\<lparr>i_status := st\<rparr> else i) xs) = map i_id xs"
  by (induction xs) auto

lemma step_idea_distinct:
  "distinct (map i_id (ideas (data s))) \<Longrightarrow>
   set (map i_id (ideas (data s))) \<inter> set (ideaClock [e]) = {} \<Longrightarrow>
   distinct (map i_id (ideas (data (step e s))))"
  by (cases e)
     (auto simp: addMember_def submitIdea_def takeActionOnIdea_def removeMember_def Let_def
        map_id_mark simp del: map_map)

lemma run_member_distinct:
  "distinct (map m_id (members (data s))) \<Longrightarrow> distinct (memberClock evs) \<Longrightarrow>
   set (map m_id (members (data s))) \<inter> set (memberClock evs) = {} \<Longrightarrow>
   distinct (map m_id (members (data (run evs s))))"
proof (induction evs arbitrary: s)
  case Nil
  then show ?case by simp
next
  case (Cons e es)
  have split: "memberClock (e # es) = memberClock [e] @ memberClock es"
    by (rule memberClock_Cons)
  have d1: "distinct (map m_id (members (data (step e s))))"
    using Cons.prems split by (intro step_member_distinct) auto
  have d2: "distinct (memberClock es)" using Cons.prems(2) split by simp
  have "set (map m_id (members (data (step e s)))) \<inter> set (memberClock es) = {}"
    using step_member_ids [of e s] Cons.prems(2,3) split by auto
  from Cons.IH [OF d1 d2 this] show ?case by simp
qed

lemma run_idea_distinct:
  "distinct (map i_id (ideas (data s))) \<Longrightarrow> distinct (ideaClock evs) \<Longrightarrow>
   set (map i_id (ideas (data s))) \<inter> set (ideaClock evs) = {} \<Longrightarrow>
   distinct (map i_id (ideas (data (run evs s))))"
proof (induction evs arbitrary: s)
  case Nil
  then show ?case by simp
next
  case (Cons e es)
  have split: "ideaClock (e # es) = ideaClock [e] @ ideaClock es"
    by (rule ideaClock_Cons)
  have d1: "distinct (map i_id (ideas (data (step e s))))"
    using Cons.prems split by (intro step_idea_distinct) auto
  have d2: "distinct (ideaClock es)" using Cons.prems(2) split by simp
  have "set (map i_id (ideas (data (step e s)))) \<inter> set (ideaClock es) = {}"
    using step_idea_ids [of e s] Cons.prems(2,3) split by auto
  from Cons.IH [OF d1 d2 this] show ?case by simp
qed

text \<open>
  C2, amended. In every state reached from the initial one by a sequence of events in which
  the clock readings of the calls of \<open>addMember\<close> are pairwise distinct, and so are those of
  the calls of \<open>submitIdea\<close>, the ids of the members are pairwise distinct and the ids of
  the ideas are pairwise distinct.
\<close>

theorem ids_unique_distinct_clock:
  assumes "distinct (memberClock evs)" and "distinct (ideaClock evs)"
  shows "distinct (map m_id (members (data (run evs initialApp))))
     \<and> distinct (map i_id (ideas (data (run evs initialApp))))"
  using run_member_distinct [of initialApp evs] run_idea_distinct [of initialApp evs] assms
  by (simp add: initialApp_def seedDocument_def)

theorem ids_unique_distinct_clock_witness:
  "distinct (memberClock [MemberNameChanged (js ''Asha''), AddMember 1700000000000,
        IdeaTitleChanged (js ''Night patrol''),
        SubmitIdea 1700000000000 (js ''2023-11-14T22:13:20.000Z''),
        MemberNameChanged (js ''Ravi''), AddMember 1700000060000,
        TakeActionOnIdea 1700000000000, RemoveMember True 1700000000000])
   \<and> distinct (ideaClock [MemberNameChanged (js ''Asha''), AddMember 1700000000000,
        IdeaTitleChanged (js ''Night patrol''),
        SubmitIdea 1700000000000 (js ''2023-11-14T22:13:20.000Z''),
        MemberNameChanged (js ''Ravi''), AddMember 1700000060000,
        TakeActionOnIdea 1700000000000, RemoveMember True 1700000000000])
   \<and> distinct (map m_id (members (data (run [MemberNameChanged (js ''Asha''),
        AddMember 1700000000000, IdeaTitleChanged (js ''Night patrol''),
        SubmitIdea 1700000000000 (js ''2023-11-14T22:13:20.000Z''),
        MemberNameChanged (js ''Ravi''), AddMember 1700000060000,
        TakeActionOnIdea 1700000000000, RemoveMember True 1700000000000] initialApp))))
   \<and> distinct (map i_id (ideas (data (run [MemberNameChanged (js ''Asha''),
        AddMember 1700000000000, IdeaTitleChanged (js ''Night patrol''),
        SubmitIdea 1700000000000 (js ''2023-11-14T22:13:20.000Z''),
        MemberNameChanged (js ''Ravi''), AddMember 1700000060000,
        TakeActionOnIdea 1700000000000, RemoveMember True 1700000000000] initialApp))))"
proof -
  let ?evs = "[MemberNameChanged (js ''Asha''), AddMember 1700000000000,
        IdeaTitleChanged (js ''Night patrol''),
        SubmitIdea 1700000000000 (js ''2023-11-14T22:13:20.000Z''),
        MemberNameChanged (js ''Ravi''), AddMember 1700000060000,
        TakeActionOnIdea 1700000000000, RemoveMember True 1700000000000]"
  have h1: "distinct (memberClock ?evs)" and h2: "distinct (ideaClock ?evs)" by simp_all
  from ids_unique_distinct_clock [OF h1 h2] h1 h2 show ?thesis by blast
qed

section \<open>Serialising and parsing\<close>

subsection \<open>Strings\<close>









subsection \<open>Numbers\<close>















subsection \<open>Values\<close>











subsection \<open>Properties and elements\<close>







subsection \<open>Members, ideas and the document\<close>

















subsection \<open>Values determine the document\<close>




subsection \<open>The slot\<close>



subsection \<open>Every parser consumes input\<close>

text \<open>
  A parser that succeeds returns less input than it was given. The guards in
  \<open>parseElements\<close> and \<open>parseMembers\<close> are therefore always true where they are
  evaluated, and both functions satisfy their equations without the guards.
\<close>

lemma consResult_Some:
  "consResult x p = Some (ys, r) \<Longrightarrow> \<exists>xs. p = Some (xs, r)"
  by (auto simp: consResult_def split: option.splits)

lemma parseStringBody_cases:
  assumes "parseStringBody (c # cs) = Some (s, r)"
  obtains (quote) "r = cs"
    | (plain) xs where "parseStringBody cs = Some (xs, r)"
    | (escape) e r0 xs where "cs = e # r0" "parseStringBody r0 = Some (xs, r)"
    | (unicode) e h1 h2 h3 h4 r' xs where "cs = e # h1 # h2 # h3 # h4 # r'"
        "parseStringBody r' = Some (xs, r)"
proof (cases "c = 0x22")
  case True
  with assms have "r = cs" by simp
  then show ?thesis by (rule quote)
next
  case q: False
  show ?thesis
  proof (cases "c = 0x5C")
    case False
    with q assms have "consResult c (parseStringBody cs) = Some (s, r)"
      by (simp split: if_splits)
    from consResult_Some [OF this] obtain xs where "parseStringBody cs = Some (xs, r)" ..
    then show ?thesis by (rule plain)
  next
    case True
    show ?thesis
    proof (cases cs)
      case Nil
      with q True assms show ?thesis by simp
    next
      case (Cons e r0)
      show ?thesis
      proof (cases "e = 0x75")
        case False
        with q True Cons assms obtain u where "consResult u (parseStringBody r0) = Some (s, r)"
          by (simp split: option.splits)
        from consResult_Some [OF this] obtain xs where "parseStringBody r0 = Some (xs, r)" ..
        with Cons show ?thesis by (rule escape)
      next
        case u: True
        from q True Cons u assms
        have a: "(case r0 of
                  h1 # h2 # h3 # h4 # r' \<Rightarrow>
                    (case (hexValue h1, hexValue h2, hexValue h3, hexValue h4) of
                       (Some a, Some b, Some c', Some d) \<Rightarrow>
                         consResult (of_nat (((a * 16 + b) * 16 + c') * 16 + d))
                           (parseStringBody r')
                     | _ \<Rightarrow> None)
                | _ \<Rightarrow> None) = Some (s, r)"
          by simp
        then obtain h1 h2 h3 h4 r' where r0: "r0 = h1 # h2 # h3 # h4 # r'"
          by (simp split: list.splits)
        from a obtain w where "consResult w (parseStringBody r') = Some (s, r)"
          unfolding r0 by (simp split: option.splits)
        from consResult_Some [OF this] obtain xs where p: "parseStringBody r' = Some (xs, r)" ..
        from Cons r0 have "cs = e # h1 # h2 # h3 # h4 # r'" by simp
        then show ?thesis using p by (rule unicode)
      qed
    qed
  qed
qed

lemma parseStringBody_shorter: "parseStringBody cs = Some (s, r) \<Longrightarrow> length r < length cs"
proof (induction "length cs" arbitrary: cs s r rule: less_induct)
  case less
  show ?case
  proof (cases cs)
    case Nil
    with less.prems show ?thesis by simp
  next
    case (Cons c cs')
    from less.prems Cons have "parseStringBody (c # cs') = Some (s, r)" by simp
    then show ?thesis
    proof (cases rule: parseStringBody_cases)
      case quote
      with Cons show ?thesis by simp
    next
      case plain
      from less.hyps [OF _ plain] Cons show ?thesis by simp
    next
      case escape
      from less.hyps [OF _ escape(2)] Cons escape(1) show ?thesis by simp
    next
      case unicode
      from less.hyps [OF _ unicode(2)] Cons unicode(1) show ?thesis by simp
    qed
  qed
qed

lemma parseInt_shorter: "parseInt cs = Some (i, r) \<Longrightarrow> length r < length cs"
proof (cases cs)
  case Nil
  then show "parseInt cs = Some (i, r) \<Longrightarrow> ?thesis" by (simp add: parseInt_def)
next
  case (Cons c cs')
  assume "parseInt cs = Some (i, r)"
  with Cons have "r = cs' \<or> (isDigit c \<and> r = dropWhile isDigit cs')"
    by (auto simp: parseInt_def split: if_splits)
  then show ?thesis
    using Cons length_dropWhile_le [of isDigit cs'] by auto
qed

lemma parseFrac_shorter: "parseFrac cs = Some (f, r) \<Longrightarrow> length r \<le> length cs"
proof (cases cs)
  case Nil
  then show "parseFrac cs = Some (f, r) \<Longrightarrow> ?thesis" by (simp add: parseFrac_def)
next
  case (Cons c cs')
  assume "parseFrac cs = Some (f, r)"
  with Cons have "r = cs \<or> r = dropWhile isDigit cs'"
    by (auto simp: parseFrac_def Let_def split: if_splits)
  then show ?thesis
    using Cons length_dropWhile_le [of isDigit cs'] by auto
qed

lemma parseExp_shorter: "parseExp cs = Some (e, r) \<Longrightarrow> length r \<le> length cs"
proof (cases cs)
  case Nil
  then show "parseExp cs = Some (e, r) \<Longrightarrow> ?thesis" by (simp add: parseExp_def)
next
  case (Cons c cs')
  assume "parseExp cs = Some (e, r)"
  with Cons have "r = cs \<or> r = dropWhile isDigit cs' \<or> r = dropWhile isDigit (tl cs')"
    by (auto simp: parseExp_def Let_def split: if_splits list.splits)
  then show ?thesis
    using Cons length_dropWhile_le [of isDigit cs'] length_dropWhile_le [of isDigit "tl cs'"]
    by auto
qed

lemma parseNumber_shorter: "parseNumber cs = Some (q, r) \<Longrightarrow> length r < length cs"
proof -
  assume p: "parseNumber cs = Some (q, r)"
  define cs1 where "cs1 = (if (case cs of [] \<Rightarrow> False | c # _ \<Rightarrow> c = 0x2D) then tl cs else cs)"
  have l: "length cs1 \<le> length cs" by (simp add: cs1_def)
  from p have "\<exists>i cs2 f cs3 e. parseInt cs1 = Some (i, cs2) \<and> parseFrac cs2 = Some (f, cs3)
      \<and> parseExp cs3 = Some (e, r)"
    by (auto simp: parseNumber_def Let_def cs1_def split: option.splits)
  then obtain i cs2 f cs3 e where "parseInt cs1 = Some (i, cs2)"
    and "parseFrac cs2 = Some (f, cs3)" and "parseExp cs3 = Some (e, r)" by blast
  then show ?thesis
    using parseInt_shorter [of cs1 i cs2] parseFrac_shorter [of cs2 f cs3]
      parseExp_shorter [of cs3 e r] l
    by linarith
qed

lemma parseLiteral_shorter:
  "lit \<noteq> [] \<Longrightarrow> parseLiteral lit v cs = Some (x, r) \<Longrightarrow> length r < length cs"
proof -
  assume lit: "lit \<noteq> []" and p: "parseLiteral lit v cs = Some (x, r)"
  from p have t: "take (length lit) cs = lit" and r: "r = drop (length lit) cs"
    by (auto simp: parseLiteral_def split: if_splits)
  from t have "length (take (length lit) cs) = length lit" by simp
  then have "length lit \<le> length cs" by simp
  with lit r show ?thesis by (cases lit) auto
qed

lemma skipWs_shorter: "skipWs cs = d # r \<Longrightarrow> length r < length cs"
  using length_dropWhile_le [of isJSONWhiteSpace cs] by (simp add: skipWs_def)

lemma skipWs_length: "length (skipWs cs) \<le> length cs"
  by (simp add: skipWs_def length_dropWhile_le)

lemma parseValue_cases:
  assumes "parseValue (c # r0) = Some (v, r)"
  obtains (string) s where "parseStringBody r0 = Some (s, r)"
    | (empty) d where "skipWs r0 = d # r"
    | (elements) d r' vs where "skipWs r0 = d # r'" "parseElements (d # r') = Some (vs, r)"
    | (members) d r' ps where "skipWs r0 = d # r'" "parseMembers (d # r') = Some (ps, r)"
    | (literal) lit x where "lit \<noteq> []" "parseLiteral lit x (c # r0) = Some (v, r)"
    | (number) q where "parseNumber (c # r0) = Some (q, r)"
proof -
  note p = assms [unfolded parseValue.simps [of "c # r0"], simplified]
  consider "c = 0x22" | "c = 0x5B" | "c = 0x7B" | "c = 0x74" | "c = 0x66" | "c = 0x6E"
    | "c \<noteq> 0x22" "c \<noteq> 0x5B" "c \<noteq> 0x7B" "c \<noteq> 0x74" "c \<noteq> 0x66" "c \<noteq> 0x6E"
    by blast
  then show ?thesis
  proof cases
    case 1
    with p obtain s where "parseStringBody r0 = Some (s, r)"
      by (auto split: option.splits)
    then show ?thesis by (rule string)
  next
    case 2
    with p obtain d r' where s: "skipWs r0 = d # r'"
      by (cases "skipWs r0") simp_all
    show ?thesis
    proof (cases "d = 0x5D")
      case True
      with p 2 s have "r = r'" by simp
      with s show ?thesis by (intro empty [of d]) simp
    next
      case False
      with p 2 s obtain vs where "parseElements (d # r') = Some (vs, r)"
        by (auto split: option.splits)
      with s show ?thesis by (rule elements)
    qed
  next
    case 3
    with p obtain d r' where s: "skipWs r0 = d # r'"
      by (cases "skipWs r0") simp_all
    show ?thesis
    proof (cases "d = 0x7D")
      case True
      with p 3 s have "r = r'" by simp
      with s show ?thesis by (intro empty [of d]) simp
    next
      case False
      with p 3 s obtain ps where "parseMembers (d # r') = Some (ps, r)"
        by (auto split: option.splits)
      with s show ?thesis by (rule members)
    qed
  next
    case 4
    with p have "parseLiteral (js ''true'') (JBool True) (c # r0) = Some (v, r)" by simp
    then show ?thesis by (intro literal [of "js ''true''"]) (simp_all add: js_def)
  next
    case 5
    with p have "parseLiteral (js ''false'') (JBool False) (c # r0) = Some (v, r)" by simp
    then show ?thesis by (intro literal [of "js ''false''"]) (simp_all add: js_def)
  next
    case 6
    with p have "parseLiteral (js ''null'') JNull (c # r0) = Some (v, r)" by simp
    then show ?thesis by (intro literal [of "js ''null''"]) (simp_all add: js_def)
  next
    case 7
    with p obtain q where "parseNumber (c # r0) = Some (q, r)"
      by (auto split: if_splits option.splits)
    then show ?thesis by (rule number)
  qed
qed

lemma parse_shorter:
  "(parseValue cs = Some (v, r) \<longrightarrow> length r < length cs)
   \<and> (parseElements cs = Some (vs, r) \<longrightarrow> length r < length cs)
   \<and> (parseMembers cs = Some (ps, r) \<longrightarrow> length r < length cs)"
proof (induction "length cs" arbitrary: cs v vs ps r rule: less_induct)
  case less
  have V: "length r < length cs" if p: "parseValue cs = Some (v, r)" for v r
  proof (cases cs)
    case Nil
    with p show ?thesis by (subst (asm) parseValue.simps) simp
  next
    case (Cons c r0)
    from p Cons have "parseValue (c # r0) = Some (v, r)" by simp
    then show ?thesis
    proof (cases rule: parseValue_cases)
      case (string s)
      with parseStringBody_shorter [of r0 s r] Cons show ?thesis by simp
    next
      case (empty d)
      with skipWs_shorter [of r0 d r] Cons show ?thesis by simp
    next
      case (elements d r' vs)
      have "length (d # r') < length cs"
        using skipWs_length [of r0] elements(1) Cons by simp
      from less.hyps [OF this, where vs = vs and r = r and v = v and ps = ps] elements(2) skipWs_length [of r0] elements(1) Cons
      show ?thesis by simp
    next
      case (members d r' ps)
      have "length (d # r') < length cs"
        using skipWs_length [of r0] members(1) Cons by simp
      from less.hyps [OF this, where ps = ps and r = r and v = v and vs = vs] members(2) skipWs_length [of r0] members(1) Cons
      show ?thesis by simp
    next
      case (literal lit x)
      with parseLiteral_shorter [of lit x "c # r0" v r] Cons show ?thesis by simp
    next
      case (number q)
      with parseNumber_shorter [of "c # r0" q r] Cons show ?thesis by simp
    qed
  qed
  have E: "length r < length cs" if p: "parseElements cs = Some (vs, r)" for vs r
  proof -
    from p obtain x r1 where pv: "parseValue cs = Some (x, r1)"
      by (subst (asm) parseElements.simps) (auto split: option.splits)
    note l1 = V [OF pv]
    from p pv l1 obtain c r' where s: "skipWs r1 = c # r'"
      by (subst (asm) parseElements.simps) (cases "skipWs r1"; simp)
    note l2 = skipWs_shorter [OF s]
    show ?thesis
    proof (cases "c = 0x2C")
      case True
      with p pv l1 s have "consResult x (parseElements (skipWs r')) = Some (vs, r)"
        by (subst (asm) parseElements.simps) simp
      from consResult_Some [OF this] obtain xs where q: "parseElements (skipWs r') = Some (xs, r)" ..
      have "length (skipWs r') < length cs" using skipWs_length [of r'] l1 l2 by simp
      from less.hyps [OF this, where vs = xs and r = r and v = v and ps = ps] q skipWs_length [of r'] l1 l2 show ?thesis by simp
    next
      case False
      with p pv l1 s have "r = r'"
        by (subst (asm) parseElements.simps) (simp split: if_splits)
      with l1 l2 show ?thesis by simp
    qed
  qed
  have M: "length r < length cs" if p: "parseMembers cs = Some (ps, r)" for ps r
  proof (cases cs)
    case Nil
    with p show ?thesis by (subst (asm) parseMembers.simps) simp
  next
    case (Cons q r0)
    from p Cons have q: "q = 0x22"
      by (subst (asm) parseMembers.simps) (simp split: if_splits)
    from p Cons q obtain k r1 where k: "parseStringBody r0 = Some (k, r1)"
      by (subst (asm) parseMembers.simps) (auto split: option.splits)
    from p Cons q k obtain c r2 where s1: "skipWs r1 = c # r2"
      by (subst (asm) parseMembers.simps) (cases "skipWs r1"; simp)
    from p Cons q k s1 have g1: "c = 0x3A \<and> length r2 < length cs"
      by (subst (asm) parseMembers.simps) (simp split: if_splits)
    from p Cons q k s1 g1 obtain x r3 where pv: "parseValue (skipWs r2) = Some (x, r3)"
      by (subst (asm) parseMembers.simps) (auto split: option.splits)
    from p Cons q k s1 g1 pv have g2: "length r3 < length cs"
      by (subst (asm) parseMembers.simps) (simp split: if_splits)
    from p Cons q k s1 g1 pv g2 obtain d r4 where s3: "skipWs r3 = d # r4"
      by (subst (asm) parseMembers.simps) (cases "skipWs r3"; simp)
    note l3 = skipWs_shorter [OF s3]
    show ?thesis
    proof (cases "d = 0x2C")
      case True
      with p Cons q k s1 g1 pv g2 s3
      have "consResult (k, x) (parseMembers (skipWs r4)) = Some (ps, r)"
        by (subst (asm) parseMembers.simps) simp
      from consResult_Some [OF this] obtain xs where m: "parseMembers (skipWs r4) = Some (xs, r)" ..
      have "length (skipWs r4) < length cs" using skipWs_length [of r4] l3 g2 by simp
      from less.hyps [OF this, where ps = xs and r = r and v = v and vs = vs] m
        skipWs_length [of r4] l3 g2 show ?thesis by simp
    next
      case False
      with p Cons q k s1 g1 pv g2 s3 have "r = r4"
        by (subst (asm) parseMembers.simps) (simp split: if_splits)
      with l3 g2 show ?thesis by simp
    qed
  qed
  from V E M show ?case by blast
qed

lemma parseValue_shorter: "parseValue cs = Some (v, r) \<Longrightarrow> length r < length cs"
  using parse_shorter [of cs v r] by blast

lemma parseElements_unguarded:
  "parseElements cs =
     (case parseValue cs of
        None \<Rightarrow> None
      | Some (v, r) \<Rightarrow>
          (case skipWs r of
             [] \<Rightarrow> None
           | c # r' \<Rightarrow>
               if c = 0x2C then consResult v (parseElements (skipWs r'))
               else if c = 0x5D then Some ([v], r')
               else None))"
proof (cases "parseValue cs")
  case None
  then show ?thesis by (subst parseElements.simps) simp
next
  case (Some p)
  obtain v r where p: "p = (v, r)" by (cases p)
  from Some p parseValue_shorter [of cs v r] have "length r < length cs" by simp
  with Some p show ?thesis by (subst parseElements.simps) simp
qed

lemma parseMembers_unguarded:
  "parseMembers cs =
     (case cs of
        [] \<Rightarrow> None
      | q # r0 \<Rightarrow>
          if q = 0x22 then
            (case parseStringBody r0 of
               None \<Rightarrow> None
             | Some (k, r1) \<Rightarrow>
                 (case skipWs r1 of
                    [] \<Rightarrow> None
                  | c # r2 \<Rightarrow>
                      if c = 0x3A then
                        (case parseValue (skipWs r2) of
                           None \<Rightarrow> None
                         | Some (v, r3) \<Rightarrow>
                             (case skipWs r3 of
                                [] \<Rightarrow> None
                              | d # r4 \<Rightarrow>
                                  if d = 0x2C then consResult (k, v) (parseMembers (skipWs r4))
                                  else if d = 0x7D then Some ([(k, v)], r4)
                                  else None))
                      else None))
          else None)"
proof (cases cs)
  case Nil
  then show ?thesis by (subst parseMembers.simps) simp
next
  case (Cons q r0)
  show ?thesis
  proof (cases "parseStringBody r0")
    case None
    with Cons show ?thesis by (subst parseMembers.simps) simp
  next
    case (Some p)
    obtain k r1 where p: "p = (k, r1)" by (cases p)
    from Some p have l1: "length r1 < length r0" by (simp add: parseStringBody_shorter)
    show ?thesis
    proof (cases "skipWs r1")
      case Nil
      with Cons Some p show ?thesis by (subst parseMembers.simps) simp
    next
      case s1: (Cons c r2)
      from skipWs_shorter [OF s1] l1 Cons have g1: "length r2 < length cs" by simp
      show ?thesis
      proof (cases "parseValue (skipWs r2)")
        case None
        with Cons Some p s1 g1 show ?thesis by (subst parseMembers.simps) simp
      next
        case pv: (Some p')
        obtain v r3 where p': "p' = (v, r3)" by (cases p')
        from pv p' parseValue_shorter [of "skipWs r2" v r3] skipWs_length [of r2] g1
        have g2: "length r3 < length cs" by simp
        with Cons Some p s1 g1 pv p' show ?thesis by (subst parseMembers.simps) simp
      qed
    qed
  qed
qed

section \<open>Loading and saving\<close>




text \<open>
  C9. When the slot is absent, when its text is not JSON, or when reading the storage
  throws, \<open>load\<close> returns the seed document it was given as initial value: the fixed name
  and description, no members and no ideas. When the write of \<open>save\<close> throws, the effect
  leaves the document in memory, and the storage, as they were, and nothing is raised.
\<close>

theorem load_fallback_save_ignored:
  "(getItem st LS_KEY = Inr None \<longrightarrow>
      load st LS_KEY (document_js seedDocument) = document_js seedDocument)
   \<and> (getItem st LS_KEY = Inr (Some raw) \<and> JSON_parse raw = None \<longrightarrow>
      load st LS_KEY (document_js seedDocument) = document_js seedDocument)
   \<and> (getItem st LS_KEY = Inl e \<longrightarrow>
      load st LS_KEY (document_js seedDocument) = document_js seedDocument)
   \<and> (setItem st LS_KEY (JSON_stringify d) = Inl e' \<longrightarrow>
      saveEffect LS_KEY (d, st) = (d, st))
   \<and> document_js seedDocument
       = JObject [(js ''sanghName'', JString seedName), (js ''description'', JString seedDescription),
                  (js ''members'', JArray []), (js ''ideas'', JArray [])]"
  by (simp add: load_def saveEffect_def save_def document_js_def seedDocument_def)

theorem load_fallback_save_ignored_witness:
  "getItem emptyStorage LS_KEY = Inr None
   \<and> load emptyStorage LS_KEY (document_js seedDocument) = document_js seedDocument
   \<and> getItem corruptStorage LS_KEY = Inr (Some (js ''{not json''))
   \<and> JSON_parse (js ''{not json'') = None
   \<and> load corruptStorage LS_KEY (document_js seedDocument) = document_js seedDocument
   \<and> getItem deniedStorage LS_KEY = Inl SecurityError
   \<and> load deniedStorage LS_KEY (document_js seedDocument) = document_js seedDocument
   \<and> setItem fullStorage LS_KEY (JSON_stringify seedDocument) = Inl QuotaExceededError
   \<and> saveEffect LS_KEY (seedDocument, fullStorage) = (seedDocument, fullStorage)"
proof -
  have g1: "getItem emptyStorage LS_KEY = Inr None"
    by (simp add: getItem_def emptyStorage_def)
  have g2: "getItem corruptStorage LS_KEY = Inr (Some (js ''{not json''))"
    by (simp add: getItem_def corruptStorage_def emptyStorage_def)
  have p: "JSON_parse (js ''{not json'') = None"
    by (simp add: JSON_parse_def js_def skipWs_def isJSONWhiteSpace_def parseValue.simps
        parseMembers.simps)
  have g3: "getItem deniedStorage LS_KEY = Inl SecurityError"
    by (simp add: getItem_def deniedStorage_def emptyStorage_def)
  have "10 < length LS_KEY" by (simp add: LS_KEY_def js_def)
  then have s: "setItem fullStorage LS_KEY (JSON_stringify seedDocument) = Inl QuotaExceededError"
    by (simp add: setItem_def fullStorage_def emptyStorage_def usage_def)
  note t = load_fallback_save_ignored
  from t [of emptyStorage] g1
  have l1: "load emptyStorage LS_KEY (document_js seedDocument) = document_js seedDocument"
    by blast
  from t [of corruptStorage "js ''{not json''"] g2 p
  have l2: "load corruptStorage LS_KEY (document_js seedDocument) = document_js seedDocument"
    by blast
  from t [of deniedStorage _ SecurityError] g3
  have l3: "load deniedStorage LS_KEY (document_js seedDocument) = document_js seedDocument"
    by blast
  from t [of fullStorage _ _ seedDocument QuotaExceededError] s
  have l4: "saveEffect LS_KEY (seedDocument, fullStorage) = (seedDocument, fullStorage)"
    by blast
  from g1 l1 g2 p l2 g3 l3 s l4 show ?thesis by blast
qed

end
